theory Spec2Isabelle
  imports Main
begin

section \<open>The book catalogue of \<^verbatim>\<open>main.py\<close>\<close>

text \<open>
  \<^verbatim>\<open>main.py\<close> is a web service over one dictionary \<^verbatim>\<open>db_livros\<close> (id to book) and one
  counter \<^verbatim>\<open>ultimo_id_livro\<close>. Each endpoint function is embedded as a function on an
  explicit state; an \<^verbatim>\<open>HTTPException\<close> is a value of the error type. Python integers are
  unbounded, so they are \<open>int\<close>.
\<close>

subsection \<open>The models\<close>

text \<open>
  \<^verbatim>\<open>LivroCreate\<close> (= \<^verbatim>\<open>LivroBase\<close>): \<^verbatim>\<open>titulo: str\<close> and \<^verbatim>\<open>autor: str\<close> are required,
  \<^verbatim>\<open>ano_publicacao: Optional[int]\<close> and \<^verbatim>\<open>genero: Optional[str]\<close> default to \<^verbatim>\<open>None\<close>. The
  fields carry no further constraint (no minimum length).
\<close>

record livro_create =
  c_titulo :: string
  c_autor :: string
  c_ano_publicacao :: "int option"
  c_genero :: "string option"

text \<open>
  \<^verbatim>\<open>LivroUpdate\<close>: four fields of type \<^verbatim>\<open>Optional[...]\<close> with default \<^verbatim>\<open>None\<close>. The model
  object remembers which fields the request supplied (its set of fields set): a field is
  either \<open>Unset\<close> (omitted, it then holds the default) or \<open>Provided v\<close>, where \<open>v\<close> is
  \<open>None\<close> for an explicit \<^verbatim>\<open>null\<close>.
\<close>

datatype 'a campo = Unset | Provided "'a option"

record livro_update =
  u_titulo :: "string campo"
  u_autor :: "string campo"
  u_ano_publicacao :: "int campo"
  u_genero :: "string campo"

text \<open>
  \<^verbatim>\<open>Livro\<close>: the stored object. Its class declares \<^verbatim>\<open>titulo: str\<close> and \<^verbatim>\<open>autor: str\<close>, but
  the class does not ask for validation on assignment, so \<^verbatim>\<open>setattr\<close> stores whatever
  value it is given: the attributes are modelled with the values they can hold at run
  time, \<open>None\<close> included.
\<close>

record livro =
  id_livro :: int
  titulo :: "string option"
  autor :: "string option"
  ano_publicacao :: "int option"
  genero :: "string option"

text \<open>
  One entry of the dictionary that \<^verbatim>\<open>model_dump\<close> returns for a \<^verbatim>\<open>LivroUpdate\<close>: the key
  and the value it maps to.
\<close>

datatype atributo =
    Titulo "string option"
  | Autor "string option"
  | AnoPublicacao "int option"
  | Genero "string option"

text \<open>
  \<^verbatim>\<open>livro_update.model_dump(exclude_unset=True)\<close>: the entries of the fields that were
  supplied, in the order the class declares them. A field supplied as \<^verbatim>\<open>null\<close> is a
  supplied field.
\<close>

definition dump_campo :: "('a option \<Rightarrow> atributo) \<Rightarrow> 'a campo \<Rightarrow> atributo list" where
  "dump_campo key c = (case c of Unset \<Rightarrow> [] | Provided v \<Rightarrow> [key v])"

definition model_dump_exclude_unset :: "livro_update \<Rightarrow> atributo list" where
  "model_dump_exclude_unset u =
     dump_campo Titulo (u_titulo u) @ dump_campo Autor (u_autor u) @
     dump_campo AnoPublicacao (u_ano_publicacao u) @ dump_campo Genero (u_genero u)"

text \<open>\<^verbatim>\<open>setattr(livro_existente, key, value)\<close>.\<close>

fun setattr :: "livro \<Rightarrow> atributo \<Rightarrow> livro" where
  "setattr l (Titulo v) = l\<lparr>titulo := v\<rparr>"
| "setattr l (Autor v) = l\<lparr>autor := v\<rparr>"
| "setattr l (AnoPublicacao v) = l\<lparr>ano_publicacao := v\<rparr>"
| "setattr l (Genero v) = l\<lparr>genero := v\<rparr>"

subsection \<open>The dictionary\<close>

text \<open>
  A Python \<^verbatim>\<open>dict\<close> iterates in insertion order, and \<^verbatim>\<open>listar_livros\<close> depends on that
  order, so the dictionary is an association list in insertion order. Assigning to a key
  that is present replaces its value where it stands; assigning to a new key appends.
\<close>

type_synonym 'v dict = "(int \<times> 'v) list"

fun dict_get :: "int \<Rightarrow> 'v dict \<Rightarrow> 'v option" where
  "dict_get k [] = None"
| "dict_get k ((k', v) # d) = (if k' = k then Some v else dict_get k d)"

fun dict_set :: "int \<Rightarrow> 'v \<Rightarrow> 'v dict \<Rightarrow> 'v dict" where
  "dict_set k v [] = [(k, v)]"
| "dict_set k v ((k', v') # d) =
     (if k' = k then (k, v) # d else (k', v') # dict_set k v d)"

definition dict_in :: "int \<Rightarrow> 'v dict \<Rightarrow> bool" where
  "dict_in k d = (k \<in> set (map fst d))"

text \<open>
  \<^verbatim>\<open>del d[k]\<close>. On a missing key Python raises \<^verbatim>\<open>KeyError\<close>; the only caller tests
  \<^verbatim>\<open>k not in d\<close> first, so that case is not reached and is not modelled.
\<close>

definition dict_del :: "int \<Rightarrow> 'v dict \<Rightarrow> 'v dict" where
  "dict_del k d = filter (\<lambda>kv. fst kv \<noteq> k) d"

definition dict_values :: "'v dict \<Rightarrow> 'v list" where
  "dict_values d = map snd d"

text \<open>
  The slice \<^verbatim>\<open>xs[a:b]\<close> of a Python list: a negative bound counts from the end, and
  every bound is clamped to the list.
\<close>

definition py_bound :: "int \<Rightarrow> int \<Rightarrow> int" where
  "py_bound n a = (if a < 0 then max (a + n) 0 else min a n)"

definition py_slice :: "'a list \<Rightarrow> int \<Rightarrow> int \<Rightarrow> 'a list" where
  "py_slice xs a b =
     (let n = int (length xs); lo = py_bound n a; hi = py_bound n b
      in take (nat (hi - lo)) (drop (nat lo) xs))"

subsection \<open>The state and the endpoint functions\<close>

record estado =
  db_livros :: "livro dict"
  ultimo_id_livro :: int

definition inicial :: estado where
  "inicial = \<lparr>db_livros = [], ultimo_id_livro = 0\<rparr>"

text \<open>The two errors a request can end in: HTTP 404 (its detail names the id) and 422.\<close>

datatype erro = NotFound int | ValidationError

text \<open>\<^verbatim>\<open>Livro(id=ultimo_id_livro, **livro.model_dump())\<close>.\<close>

definition novo_livro :: "int \<Rightarrow> livro_create \<Rightarrow> livro" where
  "novo_livro n c =
     \<lparr>id_livro = n, titulo = Some (c_titulo c), autor = Some (c_autor c),
      ano_publicacao = c_ano_publicacao c, genero = c_genero c\<rparr>"

definition criar_livro :: "livro_create \<Rightarrow> estado \<Rightarrow> livro \<times> estado" where
  "criar_livro c s =
     (let n = ultimo_id_livro s + 1;
          novo = novo_livro n c
      in (novo, \<lparr>db_livros = dict_set (id_livro novo) novo (db_livros s),
                 ultimo_id_livro = n\<rparr>))"

definition listar_livros :: "int \<Rightarrow> int \<Rightarrow> estado \<Rightarrow> livro list" where
  "listar_livros skip limit s =
     (let livros_lista = dict_values (db_livros s);
          skip1 = (if skip < 0 then 0 else skip);
          limit1 = (if limit \<le> 0 then 10 else limit)
      in py_slice livros_lista skip1 (skip1 + limit1))"

definition obter_livro :: "int \<Rightarrow> estado \<Rightarrow> erro + livro" where
  "obter_livro k s =
     (case dict_get k (db_livros s) of
        None \<Rightarrow> Inl (NotFound k)
      | Some l \<Rightarrow> Inr l)"

definition atualizar_livro :: "int \<Rightarrow> livro_update \<Rightarrow> estado \<Rightarrow> (erro + livro) \<times> estado" where
  "atualizar_livro k u s =
     (case dict_get k (db_livros s) of
        None \<Rightarrow> (Inl (NotFound k), s)
      | Some livro_existente \<Rightarrow>
          (let update_data = model_dump_exclude_unset u;
               l = foldl setattr livro_existente update_data
           in (Inr l, s\<lparr>db_livros := dict_set k l (db_livros s)\<rparr>)))"

text \<open>The confirmation message of a delete names the id, and is modelled by it.\<close>

definition deletar_livro :: "int \<Rightarrow> estado \<Rightarrow> (erro + int) \<times> estado" where
  "deletar_livro k s =
     (if \<not> dict_in k (db_livros s) then (Inl (NotFound k), s)
      else (Inr k, s\<lparr>db_livros := dict_del k (db_livros s)\<rparr>))"

subsection \<open>Requests\<close>

text \<open>
  The framework checks a request body against the declared model before it calls the
  endpoint function, and answers 422 without calling it when the check fails. What the
  check makes of one field of the body is the input of the model: the field is missing,
  is \<^verbatim>\<open>null\<close>, holds a value of the declared type (any text for \<^verbatim>\<open>str\<close>, the empty text
  included), or holds something that is not of the declared type.
\<close>

datatype 'a entrada = Ausente | Nulo | Valor 'a | Invalido

record corpo =
  e_titulo :: "string entrada"
  e_autor :: "string entrada"
  e_ano_publicacao :: "int entrada"
  e_genero :: "string entrada"

text \<open>A required field must hold a value; an \<^verbatim>\<open>Optional\<close> field may be missing or null.\<close>

fun obrigatorio :: "'a entrada \<Rightarrow> 'a option" where
  "obrigatorio (Valor v) = Some v"
| "obrigatorio _ = None"

fun opcional :: "'a entrada \<Rightarrow> 'a option option" where
  "opcional Ausente = Some None"
| "opcional Nulo = Some None"
| "opcional (Valor v) = Some (Some v)"
| "opcional Invalido = None"

fun parcial :: "'a entrada \<Rightarrow> 'a campo option" where
  "parcial Ausente = Some Unset"
| "parcial Nulo = Some (Provided None)"
| "parcial (Valor v) = Some (Provided (Some v))"
| "parcial Invalido = None"

text \<open>A body that is not a JSON object is \<open>None\<close>.\<close>

definition validate_create :: "corpo option \<Rightarrow> livro_create option" where
  "validate_create body =
     (case body of
        None \<Rightarrow> None
      | Some b \<Rightarrow>
          (case (obrigatorio (e_titulo b), obrigatorio (e_autor b),
                 opcional (e_ano_publicacao b), opcional (e_genero b)) of
             (Some t, Some a, Some y, Some g) \<Rightarrow>
               Some \<lparr>c_titulo = t, c_autor = a, c_ano_publicacao = y, c_genero = g\<rparr>
           | _ \<Rightarrow> None))"

definition validate_update :: "corpo option \<Rightarrow> livro_update option" where
  "validate_update body =
     (case body of
        None \<Rightarrow> None
      | Some b \<Rightarrow>
          (case (parcial (e_titulo b), parcial (e_autor b),
                 parcial (e_ano_publicacao b), parcial (e_genero b)) of
             (Some t, Some a, Some y, Some g) \<Rightarrow>
               Some \<lparr>u_titulo = t, u_autor = a, u_ano_publicacao = y, u_genero = g\<rparr>
           | _ \<Rightarrow> None))"

text \<open>
  The five routes. \<^verbatim>\<open>skip\<close> and \<^verbatim>\<open>limit\<close> are query parameters with defaults 0 and 10.
\<close>

datatype requisicao =
    POST_livros "corpo option"
  | GET_livros "int option" "int option"
  | GET_livro int
  | PUT_livro int "corpo option"
  | DELETE_livro int

datatype resposta =
    Criado livro
  | Lista "livro list"
  | Encontrado livro
  | Atualizado livro
  | Removido int

fun executar :: "requisicao \<Rightarrow> estado \<Rightarrow> (erro + resposta) \<times> estado" where
  "executar (POST_livros body) s =
     (case validate_create body of
        None \<Rightarrow> (Inl ValidationError, s)
      | Some c \<Rightarrow> (let (l, s') = criar_livro c s in (Inr (Criado l), s')))"
| "executar (GET_livros skip limit) s =
     (Inr (Lista (listar_livros (case skip of None \<Rightarrow> 0 | Some n \<Rightarrow> n)
                                (case limit of None \<Rightarrow> 10 | Some n \<Rightarrow> n) s)), s)"
| "executar (GET_livro k) s = (map_sum id Encontrado (obter_livro k s), s)"
| "executar (PUT_livro k body) s =
     (case validate_update body of
        None \<Rightarrow> (Inl ValidationError, s)
      | Some u \<Rightarrow> (let (r, s') = atualizar_livro k u s in (map_sum id Atualizado r, s')))"
| "executar (DELETE_livro k) s =
     (let (r, s') = deletar_livro k s in (map_sum id Removido r, s'))"

text \<open>A sequence of requests, served one after the other.\<close>

fun executar_todas :: "requisicao list \<Rightarrow> estado \<Rightarrow> estado" where
  "executar_todas [] s = s"
| "executar_todas (r # rs) s = executar_todas rs (snd (executar r s))"

text \<open>The ids that the successful creates of a sequence of requests return, in order.\<close>

fun ids_criados :: "requisicao list \<Rightarrow> estado \<Rightarrow> int list" where
  "ids_criados [] s = []"
| "ids_criados (r # rs) s =
     (case executar r s of
        (Inr (Criado l), s') \<Rightarrow> id_livro l # ids_criados rs s'
      | (_, s') \<Rightarrow> ids_criados rs s')"

subsection \<open>Auxiliary notions for the statements\<close>

text \<open>What one field of an update does to the stored value of that field.\<close>

definition aplicar :: "'a campo \<Rightarrow> 'a option \<Rightarrow> 'a option" where
  "aplicar c old = (case c of Unset \<Rightarrow> old | Provided v \<Rightarrow> v)"

text \<open>
  The invariant of the store: the keys stand in ascending order, every book is stored
  under its own id, and no key exceeds the counter.
\<close>

definition inv_estado :: "estado \<Rightarrow> bool" where
  "inv_estado s =
     (sorted_wrt (<) (map fst (db_livros s)) \<and>
      (\<forall>kv \<in> set (db_livros s). id_livro (snd kv) = fst kv \<and> fst kv \<le> ultimo_id_livro s))"

text \<open>The update that supplies no field.\<close>

definition sem_campos :: livro_update where
  "sem_campos = \<lparr>u_titulo = Unset, u_autor = Unset, u_ano_publicacao = Unset, u_genero = Unset\<rparr>"

text \<open>Request bodies and states of the scenario used as concrete inputs.\<close>

definition dune :: corpo where
  "dune = \<lparr>e_titulo = Valor ''Dune'', e_autor = Valor ''Herbert'',
           e_ano_publicacao = Ausente, e_genero = Ausente\<rparr>"

definition foundation :: corpo where
  "foundation = \<lparr>e_titulo = Valor ''Foundation'', e_autor = Valor ''Asimov'',
                 e_ano_publicacao = Valor 1951, e_genero = Valor ''Sci-Fi''\<rparr>"

definition so_genero :: "string entrada \<Rightarrow> corpo" where
  "so_genero g = \<lparr>e_titulo = Ausente, e_autor = Ausente,
                  e_ano_publicacao = Ausente, e_genero = g\<rparr>"

definition so_titulo :: "string entrada \<Rightarrow> corpo" where
  "so_titulo t = \<lparr>e_titulo = t, e_autor = Ausente,
                  e_ano_publicacao = Ausente, e_genero = Ausente\<rparr>"

definition so_autor :: corpo where
  "so_autor = \<lparr>e_titulo = Ausente, e_autor = Valor ''Herbert'',
               e_ano_publicacao = Ausente, e_genero = Ausente\<rparr>"

definition titulo_vazio :: corpo where
  "titulo_vazio = \<lparr>e_titulo = Valor '''', e_autor = Valor ''Herbert'',
                    e_ano_publicacao = Ausente, e_genero = Ausente\<rparr>"

definition livro_dune :: livro where
  "livro_dune = \<lparr>id_livro = 1, titulo = Some ''Dune'', autor = Some ''Herbert'',
                 ano_publicacao = None, genero = None\<rparr>"

definition livro_foundation :: livro where
  "livro_foundation = \<lparr>id_livro = 2, titulo = Some ''Foundation'', autor = Some ''Asimov'',
                       ano_publicacao = Some 1951, genero = Some ''Sci-Fi''\<rparr>"

definition dois_livros :: estado where
  "dois_livros = \<lparr>db_livros = [(1, livro_dune), (2, livro_foundation)], ultimo_id_livro = 2\<rparr>"

section \<open>Basic facts\<close>

lemma dict_get_set: "dict_get k (dict_set k' v d) = (if k = k' then Some v else dict_get k d)"
  by (induction d) auto

lemma dict_set_idem: "dict_set k v (dict_set k v d) = dict_set k v d"
  by (induction d) auto

lemma dict_in_get: "dict_in k d = (dict_get k d \<noteq> None)"
  by (induction d) (auto simp: dict_in_def)

lemma dict_get_del: "dict_get k (dict_del k' d) = (if k = k' then None else dict_get k d)"
  by (induction d) (auto simp: dict_del_def)

lemma dict_set_new: "\<not> dict_in k d \<Longrightarrow> dict_set k v d = d @ [(k, v)]"
  by (induction d) (auto simp: dict_in_def)

lemma keys_dict_set_old: "dict_in k d \<Longrightarrow> map fst (dict_set k v d) = map fst d"
  by (induction d) (auto simp: dict_in_def rev_image_eqI)

lemma set_dict_set: "set (dict_set k v d) \<subseteq> insert (k, v) (set d)"
  by (induction d) (auto split: if_splits)

text \<open>The loop over \<^verbatim>\<open>update_data\<close> writes each supplied field and no other.\<close>

lemma foldl_setattr:
  "foldl setattr l (model_dump_exclude_unset u) =
     l\<lparr>titulo := aplicar (u_titulo u) (titulo l),
       autor := aplicar (u_autor u) (autor l),
       ano_publicacao := aplicar (u_ano_publicacao u) (ano_publicacao l),
       genero := aplicar (u_genero u) (genero l)\<rparr>"
  by (simp add: model_dump_exclude_unset_def dump_campo_def aplicar_def split: campo.splits)

lemma aplicar_idem: "aplicar c (aplicar c old) = aplicar c old"
  by (simp add: aplicar_def split: campo.splits)

lemma atualizar_livro_Some:
  "dict_get k (db_livros s) = Some l \<Longrightarrow>
   atualizar_livro k u s =
     (Inr (foldl setattr l (model_dump_exclude_unset u)),
      s\<lparr>db_livros := dict_set k (foldl setattr l (model_dump_exclude_unset u)) (db_livros s)\<rparr>)"
  by (simp add: atualizar_livro_def Let_def)

lemma atualizar_livro_None:
  "dict_get k (db_livros s) = None \<Longrightarrow> atualizar_livro k u s = (Inl (NotFound k), s)"
  by (simp add: atualizar_livro_def)

lemma atualizar_twice:
  "atualizar_livro k u (snd (atualizar_livro k u s)) = atualizar_livro k u s"
proof (cases "dict_get k (db_livros s)")
  case None
  then show ?thesis by (simp add: atualizar_livro_None)
next
  case (Some l)
  let ?l = "foldl setattr l (model_dump_exclude_unset u)"
  let ?s = "s\<lparr>db_livros := dict_set k ?l (db_livros s)\<rparr>"
  have 1: "atualizar_livro k u s = (Inr ?l, ?s)"
    using Some by (rule atualizar_livro_Some)
  have 2: "dict_get k (db_livros ?s) = Some ?l"
    by (simp add: dict_get_set)
  have 3: "foldl setattr ?l (model_dump_exclude_unset u) = ?l"
    by (simp add: foldl_setattr aplicar_idem)
  show ?thesis
    using atualizar_livro_Some[OF 2, of u] by (simp add: 1 3 dict_set_idem)
qed

section \<open>Failing requests\<close>

text \<open>
  Claim C5. A request that ends in an error leaves the store as it was: a get, an update
  or a delete of an id that is not stored (not found), and a create or an update whose
  body fails validation. No book is added, removed or changed, and the counter keeps
  its value.
\<close>

theorem erro_preserva_estado:
  "fst (executar r s) = Inl e \<Longrightarrow> snd (executar r s) = s"
proof (cases r)
  case (POST_livros body)
  assume "fst (executar r s) = Inl e"
  then show ?thesis using POST_livros
    by (auto simp: criar_livro_def Let_def split: option.splits)
next
  case (GET_livros a b)
  then show ?thesis by simp
next
  case (GET_livro k)
  then show ?thesis by simp
next
  case (PUT_livro k body)
  assume "fst (executar r s) = Inl e"
  then show ?thesis using PUT_livro
    by (auto simp: atualizar_livro_def Let_def split: option.splits)
next
  case (DELETE_livro k)
  assume "fst (executar r s) = Inl e"
  then show ?thesis using DELETE_livro
    by (auto simp: deletar_livro_def Let_def split: if_splits)
qed

text \<open>
  The five failing requests on a store of two books: each reports its error and returns
  the store unchanged.
\<close>

theorem erro_preserva_estado_witness:
  "fst (executar (DELETE_livro 7) dois_livros) = Inl (NotFound 7) \<and>
   snd (executar (DELETE_livro 7) dois_livros) = dois_livros \<and>
   fst (executar (PUT_livro 7 (Some (so_genero Nulo))) dois_livros) = Inl (NotFound 7) \<and>
   snd (executar (PUT_livro 7 (Some (so_genero Nulo))) dois_livros) = dois_livros \<and>
   fst (executar (PUT_livro 1 (Some (so_genero Invalido))) dois_livros) = Inl ValidationError \<and>
   snd (executar (PUT_livro 1 (Some (so_genero Invalido))) dois_livros) = dois_livros \<and>
   fst (executar (POST_livros (Some (so_genero (Valor ''Sci-Fi'')))) dois_livros) = Inl ValidationError \<and>
   snd (executar (POST_livros (Some (so_genero (Valor ''Sci-Fi'')))) dois_livros) = dois_livros \<and>
   fst (executar (GET_livro 7) dois_livros) = Inl (NotFound 7) \<and>
   snd (executar (GET_livro 7) dois_livros) = dois_livros"
proof -
  have 1: "fst (executar (DELETE_livro 7) dois_livros) = Inl (NotFound 7)"
    by (simp add: deletar_livro_def dict_in_def dois_livros_def)
  have 2: "fst (executar (PUT_livro 7 (Some (so_genero Nulo))) dois_livros) = Inl (NotFound 7)"
    by (simp add: validate_update_def so_genero_def atualizar_livro_def dois_livros_def)
  have 3: "fst (executar (PUT_livro 1 (Some (so_genero Invalido))) dois_livros) = Inl ValidationError"
    by (simp add: validate_update_def so_genero_def)
  have 4: "fst (executar (POST_livros (Some (so_genero (Valor ''Sci-Fi'')))) dois_livros) = Inl ValidationError"
    by (simp add: validate_create_def so_genero_def)
  have 5: "fst (executar (GET_livro 7) dois_livros) = Inl (NotFound 7)"
    by (simp add: obter_livro_def dois_livros_def)
  show ?thesis
    using 1 2 3 4 5 erro_preserva_estado[OF 1] erro_preserva_estado[OF 2]
      erro_preserva_estado[OF 3] erro_preserva_estado[OF 4] erro_preserva_estado[OF 5]
    by simp
qed

section \<open>Updating twice\<close>

text \<open>
  Claim C10. Update is idempotent: for an id that is stored and any update, applying the
  update a second time returns the same book and leaves the same store as applying it
  once. The same holds for the request, whatever its body.
\<close>

theorem atualizar_livro_idempotente:
  assumes "dict_get k (db_livros s) = Some l"
  shows "atualizar_livro k u (snd (atualizar_livro k u s)) = atualizar_livro k u s \<and>
         (\<exists>l'. fst (atualizar_livro k u s) = Inr l') \<and>
         executar (PUT_livro k body) (snd (executar (PUT_livro k body) s)) =
           executar (PUT_livro k body) s"
proof -
  have "executar (PUT_livro k body) (snd (executar (PUT_livro k body) s)) =
          executar (PUT_livro k body) s"
  proof (cases "validate_update body")
    case None
    then show ?thesis by simp
  next
    case (Some v)
    then show ?thesis
      using atualizar_twice[of k v s] by (simp add: case_prod_unfold Let_def)
  qed
  moreover have "\<exists>l'. fst (atualizar_livro k u s) = Inr l'"
    using assms by (simp add: atualizar_livro_Some)
  ultimately show ?thesis
    using atualizar_twice[of k u s] by blast
qed

text \<open>Setting year and genre of the first book, twice.\<close>

theorem atualizar_livro_idempotente_witness:
  "dict_get 1 (db_livros dois_livros) = Some livro_dune \<and>
   atualizar_livro 1 \<lparr>u_titulo = Unset, u_autor = Unset, u_ano_publicacao = Provided (Some 1965),
                      u_genero = Provided (Some ''Sci-Fi'')\<rparr>
     (snd (atualizar_livro 1 \<lparr>u_titulo = Unset, u_autor = Unset,
             u_ano_publicacao = Provided (Some 1965), u_genero = Provided (Some ''Sci-Fi'')\<rparr>
           dois_livros)) =
   (Inr (livro_dune\<lparr>ano_publicacao := Some 1965, genero := Some ''Sci-Fi''\<rparr>),
    dois_livros\<lparr>db_livros :=
      [(1, livro_dune\<lparr>ano_publicacao := Some 1965, genero := Some ''Sci-Fi''\<rparr>),
       (2, livro_foundation)]\<rparr>)"
proof -
  have h: "dict_get 1 (db_livros dois_livros) = Some livro_dune"
    by (simp add: dois_livros_def)
  show ?thesis
    using h atualizar_livro_idempotente[OF h, of "\<lparr>u_titulo = Unset, u_autor = Unset,
      u_ano_publicacao = Provided (Some 1965), u_genero = Provided (Some ''Sci-Fi'')\<rparr>" None]
    by (simp add: atualizar_livro_def model_dump_exclude_unset_def dump_campo_def dois_livros_def Let_def)
qed

section \<open>The ids that create returns\<close>

text \<open>Only a successful create moves the counter, by one, and it returns the new value.\<close>

lemma executar_ultimo:
  "executar r s = (res, s') \<Longrightarrow>
     (case res of
        Inr (Criado l) \<Rightarrow> id_livro l = ultimo_id_livro s + 1 \<and> ultimo_id_livro s' = ultimo_id_livro s + 1
      | _ \<Rightarrow> ultimo_id_livro s' = ultimo_id_livro s)"
  by (cases r)
     (auto simp: criar_livro_def novo_livro_def atualizar_livro_def deletar_livro_def
        obter_livro_def Let_def split: option.splits if_splits sum.splits resposta.splits)

lemma ids_criados_from:
  "ids_criados rs s =
     [ultimo_id_livro s + 1 .. ultimo_id_livro s + int (length (ids_criados rs s))]"
proof (induction rs arbitrary: s)
  case Nil
  show ?case by simp
next
  case (Cons r rs)
  obtain res s' where e: "executar r s = (res, s')"
    by (cases "executar r s")
  note u = executar_ultimo[OF e]
  show ?case
  proof (cases "\<exists>l. res = Inr (Criado l)")
    case True
    then obtain l where l: "res = Inr (Criado l)" by blast
    have 1: "ids_criados (r # rs) s = id_livro l # ids_criados rs s'"
      by (simp add: e l)
    have 2: "id_livro l = ultimo_id_livro s + 1" "ultimo_id_livro s' = ultimo_id_livro s + 1"
      using u by (simp_all add: l)
    define n where "n = int (length (ids_criados rs s'))"
    define a where "a = ultimo_id_livro s + 1"
    have ih: "ids_criados rs s' = [a + 1 .. a + n]"
      using Cons.IH[of s'] by (simp add: 2 n_def a_def)
    have "n \<ge> 0" by (simp add: n_def)
    then have "[a .. a + n] = a # [a + 1 .. a + n]"
      by (simp add: upto_rec1)
    then have 3: "a # ids_criados rs s' = [a .. a + n]"
      using ih by simp
    have 4: "ultimo_id_livro s + int (length (ids_criados (r # rs) s)) = a + n"
      by (simp add: 1 n_def a_def del: ids_criados.simps)
    have 5: "ids_criados (r # rs) s = [a .. a + n]"
      using 3 by (simp add: 1 2 a_def del: ids_criados.simps)
    show ?thesis
      unfolding 4 a_def[symmetric] by (rule 5)
  next
    case False
    then have 1: "ids_criados (r # rs) s = ids_criados rs s'"
      by (auto simp: e split: sum.splits resposta.splits)
    have 2: "ultimo_id_livro s' = ultimo_id_livro s"
      using u False by (auto split: sum.splits resposta.splits)
    show ?thesis
      using Cons.IH[of s'] by (simp add: 1 2 del: ids_criados.simps)
  qed
qed

text \<open>
  Claim C3. Whatever requests are served from the initial state (creates interleaved
  with deletes, updates and reads, failing ones included), the ids that the creates
  return are 1, 2, 3, ... in this order: they start at 1, are strictly increasing, and
  no id is returned twice, also after the book that held it was deleted.
\<close>

theorem ids_criados_crescentes:
  "ids_criados rs inicial = [1 .. int (length (ids_criados rs inicial))] \<and>
   sorted_wrt (<) (ids_criados rs inicial) \<and>
   distinct (ids_criados rs inicial)"
proof -
  have 1: "ids_criados rs inicial = [1 .. int (length (ids_criados rs inicial))]"
    using ids_criados_from[of rs inicial] by (simp add: inicial_def)
  have 2: "sorted_wrt (<) [1 .. int (length (ids_criados rs inicial))]"
    by (simp add: strict_sorted_iff)
  show ?thesis using 1 2 by (metis distinct_upto)
qed

text \<open>A delete between two creates does not free the id for reuse.\<close>

lemma ids_criados_exemplo:
  "ids_criados [POST_livros (Some dune), DELETE_livro 1, POST_livros (Some so_autor),
                POST_livros (Some foundation)] inicial = [1, 2]"
  by (simp add: validate_create_def criar_livro_def novo_livro_def deletar_livro_def
      dict_in_def dict_del_def dune_def foundation_def so_autor_def inicial_def Let_def)

section \<open>The order of the listing\<close>

text \<open>
  Every request keeps the invariant of the store: a create appends a key above all keys
  present, an update replaces a value where it stands and leaves its id alone, and a
  delete removes one entry.
\<close>

lemma dict_get_Some_in: "dict_get k d = Some v \<Longrightarrow> (k, v) \<in> set d"
  by (induction d) (auto split: if_splits)

lemma dict_get_distinct:
  "distinct (map fst d) \<Longrightarrow> (dict_get k d = Some v) = ((k, v) \<in> set d)"
  by (induction d) (auto simp: rev_image_eqI split: if_splits)

lemma id_livro_foldl_setattr: "id_livro (foldl setattr l (model_dump_exclude_unset u)) = id_livro l"
  by (simp add: foldl_setattr)

lemma inv_inicial: "inv_estado inicial"
  by (simp add: inv_estado_def inicial_def)

lemma inv_criar: 
  assumes "inv_estado s"
  shows "inv_estado (snd (criar_livro c s))"
proof -
  let ?n = "ultimo_id_livro s + 1"
  have le: "\<forall>kv \<in> set (db_livros s). fst kv \<le> ultimo_id_livro s"
    using assms by (simp add: inv_estado_def)
  then have "\<not> dict_in ?n (db_livros s)"
    by (fastforce simp: dict_in_def)
  then have db: "db_livros (snd (criar_livro c s)) = db_livros s @ [(?n, novo_livro ?n c)]"
    by (simp add: criar_livro_def Let_def novo_livro_def dict_set_new)
  have u: "ultimo_id_livro (snd (criar_livro c s)) = ?n"
    by (simp add: criar_livro_def Let_def)
  have "sorted_wrt (<) (map fst (db_livros s) @ [?n])"
    using assms le by (fastforce simp: inv_estado_def sorted_wrt_append)
  then show ?thesis
    using assms by (fastforce simp: inv_estado_def db u novo_livro_def)
qed

lemma inv_atualizar:
  assumes "inv_estado s"
  shows "inv_estado (snd (atualizar_livro k u s))"
proof (cases "dict_get k (db_livros s)")
  case None
  then show ?thesis using assms by (simp add: atualizar_livro_None)
next
  case (Some l)
  let ?l = "foldl setattr l (model_dump_exclude_unset u)"
  have in_db: "(k, l) \<in> set (db_livros s)"
    using Some by (rule dict_get_Some_in)
  then have idl: "id_livro ?l = k"
    using assms by (auto simp: inv_estado_def id_livro_foldl_setattr)
  have kin: "dict_in k (db_livros s)"
    using Some by (simp add: dict_in_get)
  have s': "snd (atualizar_livro k u s) = s\<lparr>db_livros := dict_set k ?l (db_livros s)\<rparr>"
    by (simp add: atualizar_livro_Some[OF Some])
  have "\<forall>kv \<in> set (dict_set k ?l (db_livros s)).
          id_livro (snd kv) = fst kv \<and> fst kv \<le> ultimo_id_livro s"
  proof
    fix kv assume "kv \<in> set (dict_set k ?l (db_livros s))"
    then have "kv = (k, ?l) \<or> kv \<in> set (db_livros s)"
      using set_dict_set[of k ?l "db_livros s"] by auto
    then show "id_livro (snd kv) = fst kv \<and> fst kv \<le> ultimo_id_livro s"
      using assms idl in_db by (auto simp: inv_estado_def)
  qed
  then show ?thesis
    using assms by (simp add: s' inv_estado_def keys_dict_set_old[OF kin])
qed

lemma inv_deletar:
  assumes "inv_estado s"
  shows "inv_estado (snd (deletar_livro k s))"
proof -
  have "map fst (dict_del k (db_livros s)) = filter (\<lambda>j. j \<noteq> k) (map fst (db_livros s))"
    by (simp add: dict_del_def filter_map comp_def)
  then show ?thesis
    using assms by (auto simp: deletar_livro_def inv_estado_def sorted_wrt_filter dict_del_def)
qed

lemma inv_executar: "inv_estado s \<Longrightarrow> inv_estado (snd (executar r s))"
  by (cases r)
     (auto simp: inv_criar inv_atualizar inv_deletar case_prod_unfold Let_def split: option.splits)

lemma inv_executar_todas: "inv_estado s \<Longrightarrow> inv_estado (executar_todas rs s)"
  by (induction rs arbitrary: s) (auto simp: inv_executar)

lemma py_slice_nonneg:
  assumes "0 \<le> a" and "0 \<le> b"
  shows "py_slice xs a (a + b) = take (nat b) (drop (nat a) xs)"
proof (cases "a \<le> int (length xs)")
  case False
  then show ?thesis using assms by (simp add: py_slice_def py_bound_def Let_def)
next
  case True
  show ?thesis
  proof (cases "a + b \<le> int (length xs)")
    case True
    then show ?thesis using assms \<open>a \<le> int (length xs)\<close>
      by (simp add: py_slice_def py_bound_def Let_def)
  next
    case False
    then have "length (drop (nat a) xs) \<le> nat b"
      using assms by simp
    then have "take (nat b) (drop (nat a) xs) = drop (nat a) xs"
      by (rule take_all)
    moreover have "take (nat (int (length xs) - a)) (drop (nat a) xs) = drop (nat a) xs"
      using assms by (intro take_all) simp
    ultimately show ?thesis using assms False \<open>a \<le> int (length xs)\<close>
      by (simp add: py_slice_def py_bound_def Let_def)
  qed
qed

lemma listar_livros_take_drop:
  "listar_livros skip limit s =
     take (nat (if limit \<le> 0 then 10 else limit))
       (drop (nat (if skip < 0 then 0 else skip)) (dict_values (db_livros s)))"
  by (simp add: listar_livros_def Let_def py_slice_nonneg)

lemma listar_livros_todos:
  "listar_livros 0 (int (length (db_livros s))) s = dict_values (db_livros s)"
  by (simp add: listar_livros_take_drop dict_values_def)

text \<open>
  Claim C4. After any sequence of creates, updates and deletes from the initial state,
  the list operation enumerates the stored books in ascending order of id: the listing
  with \<^verbatim>\<open>skip = 0\<close> and a limit of the size of the store is the whole store, its ids are
  strictly ascending, a book is in it exactly when get returns it under its id, and every
  page is the stretch of this enumeration that \<^verbatim>\<open>skip\<close> and \<^verbatim>\<open>limit\<close> select.
\<close>

theorem listar_livros_ordem:
  "let s = executar_todas rs inicial;
       todos = listar_livros 0 (int (length (db_livros s))) s
   in todos = dict_values (db_livros s) \<and>
      sorted_wrt (<) (map id_livro todos) \<and>
      (\<forall>k l. (obter_livro k s = Inr l) = (l \<in> set todos \<and> id_livro l = k)) \<and>
      (\<forall>skip limit. listar_livros skip limit s =
         take (nat (if limit \<le> 0 then 10 else limit))
           (drop (nat (if skip < 0 then 0 else skip)) todos))"
proof -
  define s where "s = executar_todas rs inicial"
  have inv: "inv_estado s"
    unfolding s_def by (rule inv_executar_todas[OF inv_inicial])
  have ids: "map id_livro (dict_values (db_livros s)) = map fst (db_livros s)"
    using inv by (simp add: inv_estado_def dict_values_def)
  have srt: "sorted_wrt (<) (map fst (db_livros s))"
    using inv by (simp add: inv_estado_def)
  then have dist: "distinct (map fst (db_livros s))"
    using strict_sorted_iff by blast
  have get: "(obter_livro k s = Inr l) = (l \<in> set (dict_values (db_livros s)) \<and> id_livro l = k)"
    for k l
  proof -
    have "(obter_livro k s = Inr l) = (dict_get k (db_livros s) = Some l)"
      by (simp add: obter_livro_def split: option.splits)
    also have "\<dots> = ((k, l) \<in> set (db_livros s))"
      by (rule dict_get_distinct[OF dist])
    also have "\<dots> = (l \<in> set (dict_values (db_livros s)) \<and> id_livro l = k)"
      using inv by (force simp: inv_estado_def dict_values_def)
    finally show ?thesis .
  qed
  have todos: "listar_livros 0 (int (length (db_livros s))) s = dict_values (db_livros s)"
    by (rule listar_livros_todos)
  have pages: "listar_livros skip limit s =
         take (nat (if limit \<le> 0 then 10 else limit))
           (drop (nat (if skip < 0 then 0 else skip)) (dict_values (db_livros s)))"
    for skip limit
    by (rule listar_livros_take_drop)
  have "sorted_wrt (<) (map id_livro (dict_values (db_livros s)))"
    using srt by (simp only: ids)
  then show ?thesis
    unfolding Let_def s_def[symmetric] todos
    using get pages by blast
qed

text \<open>An update keeps the place of the book, and a deleted book leaves the listing.\<close>

lemma listar_livros_exemplo:
  "map id_livro (listar_livros 0 10
     (executar_todas [POST_livros (Some dune), POST_livros (Some foundation),
                      POST_livros (Some dune), PUT_livro 1 (Some (so_genero (Valor ''Sci-Fi''))),
                      DELETE_livro 2] inicial)) = [1, 3]"
  by (simp add: validate_create_def validate_update_def criar_livro_def novo_livro_def
      atualizar_livro_def model_dump_exclude_unset_def dump_campo_def deletar_livro_def
      listar_livros_def py_slice_def py_bound_def dict_values_def
      dict_in_def dict_del_def dune_def foundation_def so_genero_def inicial_def Let_def)

section \<open>Updating one field\<close>

text \<open>
  Claim C6. For an id that is stored, an update that supplies exactly one field (title,
  author, year or genre) returns the stored book with that field set to the supplied
  value and every other field, the id included, as it was; the store then holds this
  book under the same id, at the same place, and every other book is untouched.
\<close>

theorem atualizar_um_campo:
  assumes "dict_get k (db_livros s) = Some l"
  shows
    "atualizar_livro k (sem_campos\<lparr>u_titulo := Provided t\<rparr>) s =
       (Inr (l\<lparr>titulo := t\<rparr>), s\<lparr>db_livros := dict_set k (l\<lparr>titulo := t\<rparr>) (db_livros s)\<rparr>) \<and>
     atualizar_livro k (sem_campos\<lparr>u_autor := Provided a\<rparr>) s =
       (Inr (l\<lparr>autor := a\<rparr>), s\<lparr>db_livros := dict_set k (l\<lparr>autor := a\<rparr>) (db_livros s)\<rparr>) \<and>
     atualizar_livro k (sem_campos\<lparr>u_ano_publicacao := Provided y\<rparr>) s =
       (Inr (l\<lparr>ano_publicacao := y\<rparr>),
        s\<lparr>db_livros := dict_set k (l\<lparr>ano_publicacao := y\<rparr>) (db_livros s)\<rparr>) \<and>
     atualizar_livro k (sem_campos\<lparr>u_genero := Provided g\<rparr>) s =
       (Inr (l\<lparr>genero := g\<rparr>), s\<lparr>db_livros := dict_set k (l\<lparr>genero := g\<rparr>) (db_livros s)\<rparr>) \<and>
     obter_livro k (s\<lparr>db_livros := dict_set k l' (db_livros s)\<rparr>) = Inr l' \<and>
     map fst (dict_set k l' (db_livros s)) = map fst (db_livros s) \<and>
     (j \<noteq> k \<longrightarrow>
        obter_livro j (s\<lparr>db_livros := dict_set k l' (db_livros s)\<rparr>) = obter_livro j s)"
proof -
  have kin: "dict_in k (db_livros s)"
    using assms by (simp add: dict_in_get)
  have 1: "atualizar_livro k (sem_campos\<lparr>u_titulo := Provided t\<rparr>) s =
       (Inr (l\<lparr>titulo := t\<rparr>), s\<lparr>db_livros := dict_set k (l\<lparr>titulo := t\<rparr>) (db_livros s)\<rparr>)"
    by (simp add: atualizar_livro_Some[OF assms] foldl_setattr aplicar_def sem_campos_def)
  have 2: "atualizar_livro k (sem_campos\<lparr>u_autor := Provided a\<rparr>) s =
       (Inr (l\<lparr>autor := a\<rparr>), s\<lparr>db_livros := dict_set k (l\<lparr>autor := a\<rparr>) (db_livros s)\<rparr>)"
    by (simp add: atualizar_livro_Some[OF assms] foldl_setattr aplicar_def sem_campos_def)
  have 3: "atualizar_livro k (sem_campos\<lparr>u_ano_publicacao := Provided y\<rparr>) s =
       (Inr (l\<lparr>ano_publicacao := y\<rparr>),
        s\<lparr>db_livros := dict_set k (l\<lparr>ano_publicacao := y\<rparr>) (db_livros s)\<rparr>)"
    by (simp add: atualizar_livro_Some[OF assms] foldl_setattr aplicar_def sem_campos_def)
  have 4: "atualizar_livro k (sem_campos\<lparr>u_genero := Provided g\<rparr>) s =
       (Inr (l\<lparr>genero := g\<rparr>), s\<lparr>db_livros := dict_set k (l\<lparr>genero := g\<rparr>) (db_livros s)\<rparr>)"
    by (simp add: atualizar_livro_Some[OF assms] foldl_setattr aplicar_def sem_campos_def)
  have 5: "obter_livro k (s\<lparr>db_livros := dict_set k l' (db_livros s)\<rparr>) = Inr l'"
    by (simp add: obter_livro_def dict_get_set)
  have 6: "map fst (dict_set k l' (db_livros s)) = map fst (db_livros s)"
    by (rule keys_dict_set_old[OF kin])
  have 7: "j \<noteq> k \<longrightarrow>
      obter_livro j (s\<lparr>db_livros := dict_set k l' (db_livros s)\<rparr>) = obter_livro j s"
    by (simp add: obter_livro_def dict_get_set)
  show ?thesis
    by (intro conjI 1 2 3 4 5 6 7)
qed

text \<open>Setting the genre of the first of two books.\<close>

theorem atualizar_um_campo_witness:
  "dict_get 1 (db_livros dois_livros) = Some livro_dune \<and>
   atualizar_livro 1 (sem_campos\<lparr>u_genero := Provided (Some ''Sci-Fi'')\<rparr>) dois_livros =
     (Inr (livro_dune\<lparr>genero := Some ''Sci-Fi''\<rparr>),
      dois_livros\<lparr>db_livros :=
        [(1, livro_dune\<lparr>genero := Some ''Sci-Fi''\<rparr>), (2, livro_foundation)]\<rparr>) \<and>
   (2::int) \<noteq> 1 \<and>
   obter_livro 2 (dois_livros\<lparr>db_livros :=
        [(1, livro_dune\<lparr>genero := Some ''Sci-Fi''\<rparr>), (2, livro_foundation)]\<rparr>) =
     Inr livro_foundation"
proof -
  have h: "dict_get 1 (db_livros dois_livros) = Some livro_dune"
    by (simp add: dois_livros_def)
  have e: "dict_set 1 X (db_livros dois_livros) = [(1, X), (2, livro_foundation)]" for X
    by (simp add: dois_livros_def)
  have g: "obter_livro 2 dois_livros = Inr livro_foundation"
    by (simp add: obter_livro_def dois_livros_def)
  have ne: "(2::int) \<noteq> 1"
    by simp
  show ?thesis
    using h ne atualizar_um_campo[OF h, of None None None "Some ''Sci-Fi''"
        "livro_dune\<lparr>genero := Some ''Sci-Fi''\<rparr>" 2]
    unfolding e g by blast
qed

section \<open>Out-of-range paging parameters\<close>

text \<open>
  Claim C8. Listing with \<^verbatim>\<open>limit <= 0\<close> gives the result of \<^verbatim>\<open>limit = 10\<close> (the default),
  listing with \<^verbatim>\<open>skip < 0\<close> gives the result of \<^verbatim>\<open>skip = 0\<close> (the default), and the list
  request always answers with a list, never with an error, and leaves the store alone.
\<close>

theorem listar_livros_coage:
  "(limit \<le> 0 \<longrightarrow> listar_livros skip limit s = listar_livros skip 10 s) \<and>
   (skip < 0 \<longrightarrow> listar_livros skip limit s = listar_livros 0 limit s) \<and>
   (limit \<le> 0 \<longrightarrow> executar (GET_livros sk (Some limit)) s = executar (GET_livros sk None) s) \<and>
   (skip < 0 \<longrightarrow> executar (GET_livros (Some skip) lm) s = executar (GET_livros None lm) s) \<and>
   executar (GET_livros sk lm) s =
     (Inr (Lista (listar_livros (case sk of None \<Rightarrow> 0 | Some n \<Rightarrow> n)
                                (case lm of None \<Rightarrow> 10 | Some n \<Rightarrow> n) s)), s)"
  by (simp add: listar_livros_def)

text \<open>Negative parameters on a store of two books.\<close>

theorem listar_livros_coage_witness:
  "(-5::int) \<le> 0 \<and> (-2::int) < 0 \<and>
   listar_livros 1 (-5) dois_livros = [livro_foundation] \<and>
   listar_livros 1 10 dois_livros = [livro_foundation] \<and>
   listar_livros (-2) 1 dois_livros = [livro_dune] \<and>
   listar_livros 0 1 dois_livros = [livro_dune] \<and>
   executar (GET_livros (Some 7) (Some (-5))) dois_livros = (Inr (Lista []), dois_livros) \<and>
   executar (GET_livros (Some 7) None) dois_livros = (Inr (Lista []), dois_livros)"
proof -
  have a: "listar_livros 1 10 dois_livros = [livro_foundation]"
    by (simp add: listar_livros_def py_slice_def py_bound_def dict_values_def dois_livros_def)
  have b: "listar_livros 0 1 dois_livros = [livro_dune]"
    by (simp add: listar_livros_def py_slice_def py_bound_def dict_values_def dois_livros_def)
  have c: "executar (GET_livros (Some 7) None) dois_livros = (Inr (Lista []), dois_livros)"
    by (simp add: listar_livros_def py_slice_def py_bound_def dict_values_def dois_livros_def)
  have n5: "(-5::int) \<le> 0" and n2: "(-2::int) < 0"
    by simp_all
  show ?thesis
    using n5 n2 listar_livros_coage[of "-5" 1 dois_livros "Some 7" None]
      listar_livros_coage[of 1 "-2" dois_livros "Some 7" None]
    unfolding a b c by blast
qed

section \<open>Create, then get\<close>

text \<open>
  Claim C9. Round trip: a create with a valid body answers with a book that carries the
  next id and the title, author, year and genre of the body (an omitted year or genre
  is absent), and a get of that id right after answers with the same book.
\<close>

theorem criar_obter:
  assumes "validate_create body = Some c"
  shows "fst (executar (POST_livros body) s) =
           Inr (Criado (novo_livro (ultimo_id_livro s + 1) c)) \<and>
         executar (GET_livro (ultimo_id_livro s + 1)) (snd (executar (POST_livros body) s)) =
           (Inr (Encontrado (novo_livro (ultimo_id_livro s + 1) c)),
            snd (executar (POST_livros body) s)) \<and>
         novo_livro (ultimo_id_livro s + 1) c =
           \<lparr>id_livro = ultimo_id_livro s + 1, titulo = Some (c_titulo c),
            autor = Some (c_autor c), ano_publicacao = c_ano_publicacao c,
            genero = c_genero c\<rparr>"
  using assms
  by (simp add: criar_livro_def novo_livro_def obter_livro_def dict_get_set Let_def)

text \<open>Creating a third book with title and author only.\<close>

theorem criar_obter_witness:
  "validate_create (Some dune) =
     Some \<lparr>c_titulo = ''Dune'', c_autor = ''Herbert'', c_ano_publicacao = None, c_genero = None\<rparr> \<and>
   fst (executar (POST_livros (Some dune)) dois_livros) =
     Inr (Criado \<lparr>id_livro = 3, titulo = Some ''Dune'', autor = Some ''Herbert'',
                  ano_publicacao = None, genero = None\<rparr>) \<and>
   executar (GET_livro 3) (snd (executar (POST_livros (Some dune)) dois_livros)) =
     (Inr (Encontrado \<lparr>id_livro = 3, titulo = Some ''Dune'', autor = Some ''Herbert'',
                       ano_publicacao = None, genero = None\<rparr>),
      snd (executar (POST_livros (Some dune)) dois_livros))"
proof -
  have h: "validate_create (Some dune) =
     Some \<lparr>c_titulo = ''Dune'', c_autor = ''Herbert'', c_ano_publicacao = None, c_genero = None\<rparr>"
    by (simp add: validate_create_def dune_def)
  have u: "ultimo_id_livro dois_livros + 1 = 3"
    by (simp add: dois_livros_def)
  have n: "novo_livro 3 \<lparr>c_titulo = ''Dune'', c_autor = ''Herbert'', c_ano_publicacao = None,
             c_genero = None\<rparr> =
           \<lparr>id_livro = 3, titulo = Some ''Dune'', autor = Some ''Herbert'',
            ano_publicacao = None, genero = None\<rparr>"
    by (simp add: novo_livro_def)
  show ?thesis
    using h criar_obter[OF h, of dois_livros]
    unfolding u n by blast
qed

section \<open>Explicit null in an update\<close>

text \<open>The store of two books is the one that two creates leave.\<close>

lemma dois_livros_alcancavel:
  "executar_todas [POST_livros (Some dune), POST_livros (Some foundation)] inicial = dois_livros"
  by (simp add: validate_create_def criar_livro_def novo_livro_def dune_def foundation_def
      inicial_def dois_livros_def livro_dune_def livro_foundation_def Let_def)

text \<open>
  Claim C1 says that after every sequence of operations each stored book has a title
  and an author, and that no partial update can take them away. On the code, a create
  followed by an update whose body is \<^verbatim>\<open>{"titulo": null}\<close> leaves the book stored with no
  title: the body passes \<^verbatim>\<open>LivroUpdate\<close>, whose fields all admit \<^verbatim>\<open>None\<close>, the field counts
  as supplied, and \<^verbatim>\<open>setattr\<close> writes \<^verbatim>\<open>None\<close> into the attribute that \<^verbatim>\<open>Livro\<close> declares as
  \<^verbatim>\<open>str\<close>.
\<close>

theorem titulo_apagado:
  "executar_todas [POST_livros (Some dune), PUT_livro 1 (Some (so_titulo Nulo))] inicial =
     \<lparr>db_livros = [(1, \<lparr>id_livro = 1, titulo = None, autor = Some ''Herbert'',
                         ano_publicacao = None, genero = None\<rparr>)],
      ultimo_id_livro = 1\<rparr> \<and>
   executar (PUT_livro 1 (Some (so_titulo Nulo)))
     (executar_todas [POST_livros (Some dune)] inicial) =
     (Inr (Atualizado \<lparr>id_livro = 1, titulo = None, autor = Some ''Herbert'',
                       ano_publicacao = None, genero = None\<rparr>),
      \<lparr>db_livros = [(1, \<lparr>id_livro = 1, titulo = None, autor = Some ''Herbert'',
                         ano_publicacao = None, genero = None\<rparr>)],
       ultimo_id_livro = 1\<rparr>)"
  by (simp add: validate_create_def validate_update_def criar_livro_def novo_livro_def
      atualizar_livro_def model_dump_exclude_unset_def dump_campo_def
      dune_def so_titulo_def inicial_def Let_def)

text \<open>
  Claim C2 says that a field explicitly set to null is not written, so that an optional
  field cannot be cleared. On the code, the update \<^verbatim>\<open>{"genero": null}\<close> of a book whose
  genre is \<^verbatim>\<open>Sci-Fi\<close> answers with the book without genre, and stores it so.
\<close>

theorem genero_apagado:
  "obter_livro 2 dois_livros = Inr livro_foundation \<and>
   genero livro_foundation = Some ''Sci-Fi'' \<and>
   executar (PUT_livro 2 (Some (so_genero Nulo))) dois_livros =
     (Inr (Atualizado (livro_foundation\<lparr>genero := None\<rparr>)),
      dois_livros\<lparr>db_livros := [(1, livro_dune), (2, livro_foundation\<lparr>genero := None\<rparr>)]\<rparr>) \<and>
   obter_livro 2 (snd (executar (PUT_livro 2 (Some (so_genero Nulo))) dois_livros)) =
     Inr (livro_foundation\<lparr>genero := None\<rparr>)"
  by (simp add: validate_update_def atualizar_livro_def model_dump_exclude_unset_def
      dump_campo_def obter_livro_def so_genero_def dois_livros_def livro_foundation_def Let_def)

text \<open>What a valid update body makes of each field.\<close>

lemma validate_update_campos:
  assumes "validate_update (Some b) = Some u"
  shows "Some (u_titulo u) = parcial (e_titulo b)"
    and "Some (u_autor u) = parcial (e_autor b)"
    and "Some (u_ano_publicacao u) = parcial (e_ano_publicacao b)"
    and "Some (u_genero u) = parcial (e_genero b)"
  using assms by (auto simp: validate_update_def split: option.splits)

text \<open>
  Claim C2, amended. For an id that is stored and a valid update body, an optional field
  (year, genre) that the body sets to null is written to the stored book as absent: the
  update clears it. A field that the body omits is left as it was, and the id never
  changes. The answer is the updated book, which is the one stored.
\<close>

theorem atualizar_null_limpa:
  assumes "dict_get k (db_livros s) = Some l"
    and "validate_update (Some b) = Some u"
  shows "\<exists>l'. executar (PUT_livro k (Some b)) s =
                (Inr (Atualizado l'), s\<lparr>db_livros := dict_set k l' (db_livros s)\<rparr>) \<and>
              obter_livro k (snd (executar (PUT_livro k (Some b)) s)) = Inr l' \<and>
              (e_genero b = Nulo \<longrightarrow> genero l' = None) \<and>
              (e_ano_publicacao b = Nulo \<longrightarrow> ano_publicacao l' = None) \<and>
              (e_genero b = Ausente \<longrightarrow> genero l' = genero l) \<and>
              (e_ano_publicacao b = Ausente \<longrightarrow> ano_publicacao l' = ano_publicacao l) \<and>
              (e_titulo b = Ausente \<longrightarrow> titulo l' = titulo l) \<and>
              (e_autor b = Ausente \<longrightarrow> autor l' = autor l) \<and>
              id_livro l' = id_livro l"
proof -
  let ?l = "foldl setattr l (model_dump_exclude_unset u)"
  note c = validate_update_campos[OF assms(2)]
  have 1: "executar (PUT_livro k (Some b)) s =
             (Inr (Atualizado ?l), s\<lparr>db_livros := dict_set k ?l (db_livros s)\<rparr>)"
    by (simp add: assms(2) atualizar_livro_Some[OF assms(1)])
  have 2: "obter_livro k (snd (executar (PUT_livro k (Some b)) s)) = Inr ?l"
    by (simp only: 1 snd_conv) (simp add: obter_livro_def dict_get_set)
  have 3: "e_genero b = Nulo \<longrightarrow> genero ?l = None"
    using c(4) by (auto simp: foldl_setattr aplicar_def)
  have 4: "e_ano_publicacao b = Nulo \<longrightarrow> ano_publicacao ?l = None"
    using c(3) by (auto simp: foldl_setattr aplicar_def)
  have 5: "e_genero b = Ausente \<longrightarrow> genero ?l = genero l"
    using c(4) by (auto simp: foldl_setattr aplicar_def)
  have 6: "e_ano_publicacao b = Ausente \<longrightarrow> ano_publicacao ?l = ano_publicacao l"
    using c(3) by (auto simp: foldl_setattr aplicar_def)
  have 7: "e_titulo b = Ausente \<longrightarrow> titulo ?l = titulo l"
    using c(1) by (auto simp: foldl_setattr aplicar_def)
  have 8: "e_autor b = Ausente \<longrightarrow> autor ?l = autor l"
    using c(2) by (auto simp: foldl_setattr aplicar_def)
  have 9: "id_livro ?l = id_livro l"
    by (rule id_livro_foldl_setattr)
  show ?thesis
    by (intro exI[of _ ?l] conjI 1 2 3 4 5 6 7 8 9)
qed

text \<open>Clearing the genre of the second of two books.\<close>

theorem atualizar_null_limpa_witness:
  "dict_get 2 (db_livros dois_livros) = Some livro_foundation \<and>
   validate_update (Some (so_genero Nulo)) = Some (sem_campos\<lparr>u_genero := Provided None\<rparr>) \<and>
   e_genero (so_genero Nulo) = Nulo \<and>
   e_titulo (so_genero Nulo) = Ausente \<and>
   (\<exists>l'. obter_livro 2 (snd (executar (PUT_livro 2 (Some (so_genero Nulo))) dois_livros)) = Inr l' \<and>
         genero l' = None \<and> titulo l' = titulo livro_foundation)"
proof -
  have h1: "dict_get 2 (db_livros dois_livros) = Some livro_foundation"
    by (simp add: dois_livros_def)
  have h2: "validate_update (Some (so_genero Nulo)) = Some (sem_campos\<lparr>u_genero := Provided None\<rparr>)"
    by (simp add: validate_update_def so_genero_def sem_campos_def)
  have g: "e_genero (so_genero Nulo) = Nulo" and t: "e_titulo (so_genero Nulo) = Ausente"
    by (simp_all add: so_genero_def)
  show ?thesis
    using h1 h2 g t atualizar_null_limpa[OF h1 h2] by blast
qed

section \<open>Empty title\<close>

text \<open>
  Claim C7 says that a create whose title is the empty text fails validation. On the
  code, \<^verbatim>\<open>titulo: str\<close> carries no length constraint: the create succeeds and stores a
  book with the empty title.
\<close>

theorem criar_titulo_vazio:
  "executar (POST_livros (Some titulo_vazio)) inicial =
     (Inr (Criado \<lparr>id_livro = 1, titulo = Some '''', autor = Some ''Herbert'',
                   ano_publicacao = None, genero = None\<rparr>),
      \<lparr>db_livros = [(1, \<lparr>id_livro = 1, titulo = Some '''', autor = Some ''Herbert'',
                         ano_publicacao = None, genero = None\<rparr>)],
       ultimo_id_livro = 1\<rparr>)"
  by (simp add: validate_create_def criar_livro_def novo_livro_def titulo_vazio_def
      inicial_def Let_def)

text \<open>
  Claim C7, amended. A create whose title or author is missing, null or not text fails
  with a validation error and stores nothing. A create whose title and author are text,
  the empty text included, and whose year and genre are valid, succeeds: it answers with
  a book of that title and author, which is then stored under the id of the answer.
\<close>

theorem criar_sem_titulo:
  "(obrigatorio (e_titulo b) = None \<or> obrigatorio (e_autor b) = None \<longrightarrow>
      executar (POST_livros (Some b)) s = (Inl ValidationError, s)) \<and>
   (e_titulo b = Valor t \<and> e_autor b = Valor a \<and>
    e_ano_publicacao b \<noteq> Invalido \<and> e_genero b \<noteq> Invalido \<longrightarrow>
      (\<exists>l. fst (executar (POST_livros (Some b)) s) = Inr (Criado l) \<and>
           titulo l = Some t \<and> autor l = Some a \<and>
           obter_livro (id_livro l) (snd (executar (POST_livros (Some b)) s)) = Inr l))"
proof (intro conjI impI)
  assume "obrigatorio (e_titulo b) = None \<or> obrigatorio (e_autor b) = None"
  then have "validate_create (Some b) = None"
    by (auto simp: validate_create_def split: option.splits)
  then show "executar (POST_livros (Some b)) s = (Inl ValidationError, s)"
    by simp
next
  assume h: "e_titulo b = Valor t \<and> e_autor b = Valor a \<and>
    e_ano_publicacao b \<noteq> Invalido \<and> e_genero b \<noteq> Invalido"
  then obtain y g where "opcional (e_ano_publicacao b) = Some y" "opcional (e_genero b) = Some g"
    by (cases "e_ano_publicacao b"; cases "e_genero b") auto
  then have v: "validate_create (Some b) =
      Some \<lparr>c_titulo = t, c_autor = a, c_ano_publicacao = y, c_genero = g\<rparr>"
    using h by (simp add: validate_create_def)
  show "\<exists>l. fst (executar (POST_livros (Some b)) s) = Inr (Criado l) \<and>
           titulo l = Some t \<and> autor l = Some a \<and>
           obter_livro (id_livro l) (snd (executar (POST_livros (Some b)) s)) = Inr l"
    by (rule exI[of _ "novo_livro (ultimo_id_livro s + 1)
          \<lparr>c_titulo = t, c_autor = a, c_ano_publicacao = y, c_genero = g\<rparr>"])
       (simp add: v criar_livro_def novo_livro_def obter_livro_def dict_get_set Let_def)
qed

text \<open>A body without title is refused; a body with the empty title is stored.\<close>

theorem criar_sem_titulo_witness:
  "obrigatorio (e_titulo so_autor) = None \<and>
   executar (POST_livros (Some so_autor)) dois_livros = (Inl ValidationError, dois_livros) \<and>
   e_titulo titulo_vazio = Valor '''' \<and> e_autor titulo_vazio = Valor ''Herbert'' \<and>
   e_ano_publicacao titulo_vazio \<noteq> Invalido \<and> e_genero titulo_vazio \<noteq> Invalido \<and>
   (\<exists>l. fst (executar (POST_livros (Some titulo_vazio)) dois_livros) = Inr (Criado l) \<and>
        titulo l = Some '''')"
proof -
  have h1: "obrigatorio (e_titulo so_autor) = None"
    by (simp add: so_autor_def)
  have h2: "e_titulo titulo_vazio = Valor '''' \<and> e_autor titulo_vazio = Valor ''Herbert'' \<and>
    e_ano_publicacao titulo_vazio \<noteq> Invalido \<and> e_genero titulo_vazio \<noteq> Invalido"
    by (simp add: titulo_vazio_def)
  show ?thesis
    using h1 h2 criar_sem_titulo[of so_autor dois_livros]
      criar_sem_titulo[of titulo_vazio dois_livros "''''" "''Herbert''"]
    by blast
qed

end
